theory Spec2Isabelle
  imports Main "HOL-Library.Word"
begin

section \<open>The data model of \<open>disjoint_int_intervals.h\<close>\<close>

text \<open>
  \<open>ValueType\<close> is \<open>std::pair<int, int>\<close>: \<open>first\<close> is the lower end of an interval and
  \<open>second\<close> its upper end. A C++ \<open>int\<close> is a 32-bit two's complement value; the code only
  compares (\<open><\<close>, \<open><=\<close>, signed) and tests equality, it does no arithmetic on the ends.
\<close>

type_synonym cint = "32 word"
type_synonym ValueType = "cint \<times> cint"
type_synonym KeyType = ValueType

text \<open>
  \<open>MapType\<close> is \<open>std::map<KeyType, ValueType, ComparatorType>\<close>: its entries, in the
  order an iterator visits them.
\<close>

type_synonym MapType = "(KeyType \<times> ValueType) list"

text \<open>
  The class has one data member, \<open>intervals_\<close>. (An identifier cannot end in an
  underscore, so the field of the model is \<open>intervals\<close>.)
\<close>

record DisjointIntIntervals =
  intervals :: MapType

section \<open>The operations\<close>

text \<open>
  \<open>ComparatorType::operator()\<close> is declared to return \<open>bool\<close> and its three
  \<open>return\<close> statements give the integers \<open>-1\<close>, \<open>1\<close> and \<open>0\<close>. C++ converts an
  integer to \<open>bool\<close> by comparing it with zero.
\<close>

definition int_to_bool :: "int \<Rightarrow> bool" where
  "int_to_bool i = (i \<noteq> 0)"

definition ComparatorType :: "KeyType \<Rightarrow> KeyType \<Rightarrow> bool" where
  "ComparatorType k1 k2 =
     (if snd k1 <s fst k2 then int_to_bool (- 1)
      else if snd k2 <s fst k1 then int_to_bool 1
      else int_to_bool 0)"

text \<open>
  \<open>Merge_(combine_with, merged)\<close> updates \<open>*merged\<close> in place; the model returns the
  updated pair. The model's name is \<open>Merge\<close>, for the same reason.
\<close>

definition Merge :: "ValueType \<Rightarrow> ValueType \<Rightarrow> ValueType" where
  "Merge combine_with merged =
     (if fst merged = snd combine_with
      then (fst combine_with, snd merged)
      else (fst merged, snd combine_with))"

text \<open>\<open>Init()\<close> is \<open>intervals_.clear()\<close>.\<close>

definition Init :: "DisjointIntIntervals \<Rightarrow> DisjointIntIntervals" where
  "Init r = r\<lparr>intervals := []\<rparr>"

text \<open>
  \<open>Insert(test_interval)\<close>: the body that is compiled is the single statement
  \<open>return true;\<close> under the comment \<open>Fix me later!\<close>. Everything after it stands inside
  a block comment and is not part of the program. The model returns the result together
  with the object's state after the call.
\<close>

definition Insert :: "ValueType \<Rightarrow> DisjointIntIntervals \<Rightarrow> bool \<times> DisjointIntIntervals" where
  "Insert test_interval r = (True, r)"

text \<open>A default-constructed object: \<open>std::map\<close>'s default constructor gives an empty map.\<close>

definition new_registry :: DisjointIntIntervals where
  "new_registry = \<lparr>intervals = []\<rparr>"

text \<open>A sequence of \<open>Insert\<close> calls on one object, results discarded.\<close>

fun Insert_all :: "ValueType list \<Rightarrow> DisjointIntIntervals \<Rightarrow> DisjointIntIntervals" where
  "Insert_all [] r = r"
| "Insert_all (t # ts) r = Insert_all ts (snd (Insert t r))"

section \<open>The vocabulary of the specification\<close>

text \<open>The ends of an interval, read as the signed integers they denote.\<close>

definition lo :: "ValueType \<Rightarrow> int" where
  "lo a = sint (fst a)"

definition hi :: "ValueType \<Rightarrow> int" where
  "hi a = sint (snd a)"

definition well_formed :: "ValueType \<Rightarrow> bool" where
  "well_formed a = (lo a \<le> hi a)"

text \<open>The stored intervals are the keys of the map.\<close>

definition stored :: "DisjointIntIntervals \<Rightarrow> ValueType list" where
  "stored r = map fst (intervals r)"

definition points :: "ValueType \<Rightarrow> int set" where
  "points a = {lo a .. hi a}"

definition coverage :: "DisjointIntIntervals \<Rightarrow> int set" where
  "coverage r = \<Union> (points ` set (stored r))"

text \<open>Two intervals are separated when at least one integer lies strictly between them.\<close>

definition separated :: "ValueType \<Rightarrow> ValueType \<Rightarrow> bool" where
  "separated a b = (hi a < lo b - 1 \<or> hi b < lo a - 1)"

text \<open>The invariant of the registry: any two distinct stored intervals are separated.\<close>

definition pairwise_separated :: "ValueType list \<Rightarrow> bool" where
  "pairwise_separated ks = (\<forall>a \<in> set ks. \<forall>b \<in> set ks. a \<noteq> b \<longrightarrow> separated a b)"

text \<open>
  Two keys are equivalent for an ordered container when the comparator puts neither before
  the other.
\<close>

definition equivalent :: "KeyType \<Rightarrow> KeyType \<Rightarrow> bool" where
  "equivalent a b = (\<not> ComparatorType a b \<and> \<not> ComparatorType b a)"

section \<open>Basic facts\<close>

lemma Insert_result [simp]: "fst (Insert t r) = True"
  by (simp add: Insert_def)

lemma Insert_state [simp]: "snd (Insert t r) = r"
  by (simp add: Insert_def)

lemma Insert_all_state [simp]: "Insert_all ts r = r"
  by (induction ts arbitrary: r) simp_all

lemma stored_Init [simp]: "stored (Init r) = []"
  by (simp add: stored_def Init_def)

lemma coverage_Init [simp]: "coverage (Init r) = {}"
  by (simp add: coverage_def)

lemma ComparatorType_iff:
  "ComparatorType k1 k2 \<longleftrightarrow> hi k1 < lo k2 \<or> hi k2 < lo k1"
  by (simp add: ComparatorType_def int_to_bool_def hi_def lo_def word_sless_alt)

lemma ComparatorType_commute: "ComparatorType k1 k2 = ComparatorType k2 k1"
  by (auto simp: ComparatorType_iff)

lemma equivalent_iff:
  "equivalent a b \<longleftrightarrow> lo b \<le> hi a \<and> lo a \<le> hi b"
  by (auto simp: equivalent_def ComparatorType_iff)

lemma lo_pair [simp]: "lo (x, y) = sint x"
  by (simp add: lo_def)

lemma hi_pair [simp]: "hi (x, y) = sint y"
  by (simp add: hi_def)

lemma coverage_after_Insert: "coverage (snd (Insert t r)) = coverage r"
  by simp

lemma registry_stays_empty: "stored (Insert_all ts (Init r)) = []"
  by simp

lemma Init_new_registry [simp]: "Init new_registry = new_registry"
  by (simp add: Init_def new_registry_def)

lemma intervals_new_registry [simp]: "intervals new_registry = []"
  by (simp add: new_registry_def)

lemma stored_new_registry [simp]: "stored new_registry = []"
  by (simp add: stored_def)

lemma adjacent_is_ordered: "hi a + 1 = lo b \<Longrightarrow> ComparatorType a b \<and> \<not> equivalent a b"
  by (simp add: equivalent_def ComparatorType_iff)

text \<open>
  Where the merge step is right: on intervals with \<open>lo \<le> hi\<close> it yields the union of
  the stored interval \<open>s\<close> and the bound \<open>m\<close> exactly when the upper end of \<open>s\<close> is the
  lower end of \<open>m\<close>, or \<open>s\<close> starts and ends no earlier than \<open>m\<close> does.
\<close>

lemma Merge_is_union_iff:
  assumes "well_formed s" and "well_formed m"
  shows "lo (Merge s m) = min (lo m) (lo s) \<and> hi (Merge s m) = max (hi m) (hi s)
         \<longleftrightarrow> fst m = snd s \<or> (lo m \<le> lo s \<and> hi m \<le> hi s)"
  using assms by (auto simp: Merge_def well_formed_def lo_def hi_def)

section \<open>The claims\<close>

text \<open>
  C1 (disjointness invariant). Start from an initialised registry and make any finite
  sequence of \<open>Insert\<close> calls whose arguments satisfy \<open>lo \<le> hi\<close>. Then any two distinct
  stored intervals \<open>a\<close> and \<open>b\<close> are separated: \<open>a.hi < b.lo - 1\<close> or \<open>b.hi < a.lo - 1\<close>.
  (The compiled \<open>Insert\<close> stores nothing, see \<open>registry_stays_empty\<close>, so the registry
  holds no interval at all after the calls.)
\<close>

theorem disjointness_invariant:
  assumes "list_all well_formed ts"
  shows "pairwise_separated (stored (Insert_all ts (Init r)))"
  by (simp add: pairwise_separated_def)

theorem disjointness_invariant_witness:
  "list_all well_formed [(0, 2), (5, 7)] \<and>
   pairwise_separated (stored (Insert_all [(0, 2), (5, 7)] (Init new_registry)))"
proof -
  have h: "list_all well_formed [(0, 2), (5, 7)]"
    by (simp add: well_formed_def)
  from disjointness_invariant [OF h, of new_registry] h show ?thesis
    by (rule conjI [rotated])
qed

text \<open>
  C2 (idempotence of full re-claim), evaluated where it fails. The interval \<open>[3,6]\<close> lies
  inside \<open>[0,10]\<close>. On a map that holds \<open>[0,10]\<close>, \<open>Insert\<close> of \<open>[3,6]\<close> returns
  \<open>true\<close>, not \<open>false\<close>; and after \<open>Init\<close> and \<open>Insert\<close> of \<open>[0,10]\<close> nothing is
  stored and \<open>Insert\<close> of \<open>[3,6]\<close> returns \<open>true\<close> again.
\<close>

theorem full_reclaim_returns_true:
  "lo (0, 10) \<le> lo (3, 6) \<and> hi (3, 6) \<le> hi (0, 10) \<and>
   Insert (3, 6) \<lparr>intervals = [((0, 10), (0, 10))]\<rparr>
     = (True, \<lparr>intervals = [((0, 10), (0, 10))]\<rparr>) \<and>
   stored (snd (Insert (0, 10) (Init new_registry))) = [] \<and>
   fst (Insert (3, 6) (snd (Insert (0, 10) (Init new_registry)))) = True"
  by (simp add: Insert_def)

text \<open>
  C3 (coverage monotonicity), evaluated where it fails. After \<open>Init\<close> the coverage is
  empty and the interval \<open>[0,0]\<close> is the set \<open>{0}\<close>; after \<open>Insert\<close> of \<open>[0,0]\<close> the
  coverage is still empty, not \<open>{0}\<close>.
\<close>

theorem coverage_not_extended:
  "coverage (Init new_registry) = {} \<and> points (0, 0) = {0} \<and>
   coverage (snd (Insert (0, 0) (Init new_registry))) = {}"
proof -
  have "coverage new_registry = {}"
    by (simp add: coverage_def)
  then show ?thesis
    by (simp add: points_def)
qed

text \<open>
  C4 (first claim on an empty registry), evaluated where it fails. \<open>Init\<close> and then
  \<open>Insert\<close> of \<open>[0,0]\<close> returns \<open>true\<close>, and the registry stores no interval
  afterwards instead of exactly \<open>[0,0]\<close>.
\<close>

theorem first_claim_not_stored:
  "fst (Insert (0, 0) (Init new_registry)) = True \<and>
   stored (snd (Insert (0, 0) (Init new_registry))) = [] \<and>
   intervals (snd (Insert (0, 0) (Init new_registry))) = []"
  by simp

text \<open>
  C5 (the comparator is a strict weak ordering), evaluated where it fails. The intervals
  \<open>[0,2]\<close> and \<open>[5,7]\<close> do not overlap. The comparator holds in both directions, so it
  is not asymmetric, and it holds for \<open>([5,7], [0,2])\<close> although \<open>7 < 0\<close> is false.
\<close>

theorem comparator_holds_both_ways:
  "ComparatorType (0, 2) (5, 7) \<and> ComparatorType (5, 7) (0, 2) \<and>
   (hi (5, 7) < lo (0, 2)) = False"
  by (simp add: ComparatorType_def int_to_bool_def word_sless_alt)

text \<open>
  C6 (touching counts as equivalent), as stated, fails: \<open>[0,2]\<close> and \<open>[3,5]\<close> touch
  (\<open>2 + 1 = 3\<close>) and the comparator does not classify them as equivalent.
\<close>

theorem touching_counterexample:
  "hi (0, 2) + 1 = lo (3, 5) \<and> \<not> equivalent (0, 2) (3, 5)"
  by (simp add: equivalent_def ComparatorType_def int_to_bool_def word_sless_alt)

text \<open>
  C6, amended. Sharing an end point counts as equivalent: for intervals \<open>a\<close> and \<open>b\<close>
  with \<open>lo \<le> hi\<close> each and \<open>a.hi = b.lo\<close>, the comparator's strict-less test
  \<open>a.hi < b.lo\<close> is false and the comparator puts neither before the other.
  (For \<open>a.hi + 1 = b.lo\<close> the test is true: \<open>adjacent_is_ordered\<close>.)
\<close>

theorem shared_endpoint_equivalent:
  assumes "well_formed a" and "well_formed b" and "snd a = fst b"
  shows "\<not> (snd a <s fst b) \<and> equivalent a b"
  using assms by (simp add: equivalent_iff well_formed_def lo_def hi_def)

theorem shared_endpoint_equivalent_witness:
  "well_formed (0, 2) \<and> well_formed (2, 5) \<and> snd (0, 2 :: cint) = fst (2 :: cint, 5 :: cint) \<and>
   \<not> (snd (0, 2 :: cint) <s fst (2 :: cint, 5 :: cint)) \<and> equivalent (0, 2) (2, 5)"
proof -
  have a: "well_formed (0, 2)" and b: "well_formed (2, 5)"
    by (simp_all add: well_formed_def)
  have e: "snd (0, 2 :: cint) = fst (2 :: cint, 5 :: cint)"
    by simp
  from shared_endpoint_equivalent [OF a b e] a b show ?thesis
    by simp
qed

text \<open>
  C7 (merge-bound accumulation), evaluated where it fails. The stored interval \<open>[0,2]\<close>
  overlaps the bound \<open>[1,11]\<close> and the merge step gives \<open>[1,2]\<close>: the lower end stays
  1 where the minimum is 0, and the upper end shrinks from 11 to 2 where the maximum is
  11. A stored interval inside the bound shrinks it too (\<open>[3,6]\<close> into \<open>[0,10]\<close> gives
  \<open>[0,6]\<close>), and folding the step over \<open>[0,2]\<close>, \<open>[5,7]\<close>, \<open>[10,12]\<close> from the bound
  \<open>[1,11]\<close> ends at \<open>[1,12]\<close>, not at the union \<open>[0,12]\<close>.
\<close>

theorem merge_shrinks_bound:
  "equivalent (0, 2) (1, 11) \<and> Merge (0, 2) (1, 11) = (1, 2) \<and>
   min (lo (1, 11)) (lo (0, 2)) = 0 \<and> max (hi (1, 11)) (hi (0, 2)) = 11 \<and>
   equivalent (3, 6) (0, 10) \<and> Merge (3, 6) (0, 10) = (0, 6) \<and>
   Merge (10, 12) (Merge (5, 7) (Merge (0, 2) (1, 11))) = (1, 12)"
  by (simp add: equivalent_iff Merge_def)

text \<open>
  C8 (multi-merge), evaluated where it fails. On a map that holds \<open>[0,2]\<close>, \<open>[5,7]\<close>
  and \<open>[10,12]\<close>, \<open>Insert\<close> of \<open>[1,11]\<close> returns \<open>true\<close> and the map still holds the
  same three entries, not the single \<open>[0,12]\<close>; and the four calls in a row on an
  initialised registry leave it storing nothing.
\<close>

theorem multi_merge_not_done:
  "Insert (1, 11) \<lparr>intervals = [((0, 2), (0, 2)), ((5, 7), (5, 7)), ((10, 12), (10, 12))]\<rparr>
     = (True, \<lparr>intervals = [((0, 2), (0, 2)), ((5, 7), (5, 7)), ((10, 12), (10, 12))]\<rparr>) \<and>
   stored (Insert_all [(0, 2), (5, 7), (10, 12), (1, 11)] (Init new_registry)) = []"
  by (simp add: Insert_def)

text \<open>
  C9 (a violated precondition is reported), as stated, fails: for \<open>[5,3]\<close>, where
  \<open>lo > hi\<close>, \<open>Insert\<close> returns \<open>true\<close> and leaves the registry as it was, which is
  exactly what it does for the valid interval \<open>[3,5]\<close>.
\<close>

theorem precondition_counterexample:
  "hi (5, 3) < lo (5, 3) \<and> Insert (5, 3) new_registry = (True, new_registry) \<and>
   Insert (5, 3) new_registry = Insert (3, 5) new_registry"
  by (simp add: Insert_def)

text \<open>
  C9, amended. \<open>Insert\<close> does not validate its argument: for every interval with
  \<open>lo > hi\<close> it returns \<open>true\<close> and leaves the registry unchanged.
\<close>

theorem Insert_accepts_reversed_bounds:
  assumes "hi t < lo t"
  shows "Insert t r = (True, r)"
  by (simp add: Insert_def)

theorem Insert_accepts_reversed_bounds_witness:
  "hi (9, 4) < lo (9, 4) \<and> Insert (9, 4) new_registry = (True, new_registry)"
proof -
  have h: "hi (9, 4) < lo (9, 4)"
    by simp
  from Insert_accepts_reversed_bounds [OF h, of new_registry] h show ?thesis
    by simp
qed

text \<open>
  C10 (the compiled body). For every registry state and every argument, \<open>Insert\<close>
  returns \<open>true\<close> and the map of stored intervals is the same after the call: no entry
  is inserted, erased or changed.
\<close>

theorem Insert_returns_true_and_keeps_map:
  "Insert test_interval r = (True, r) \<and>
   intervals (snd (Insert test_interval r)) = intervals r"
  by (simp add: Insert_def)

end
